theory Spec2Isabelle
  imports
    Complex_Main
    "HOL-Library.Char_ord"
    "HOL-Library.List_Lexorder"
    "HOL-Library.DAList"
    "HOL-Library.Multiset"
begin

section \<open>The Airthings scan-and-read script (scan_airthings_devices.py)\<close>

text \<open>
  The script is an orchestration of two external BLE calls (the discovery primitive
  \<open>BleakScanner.discover\<close> and the device-update primitive \<open>update_device\<close>) with
  console and log output.  The embedding passes an explicit world through every function:
  the world records, oldest first, each \<open>print\<close>, each \<open>logger.error\<close> and each external
  call the script makes.  What the external calls answer is given by an environment, which
  may answer differently at every call (radio conditions change between passes).
  Strings are compared bytewise, which for UTF-8 text is Python's code point order.
\<close>

subsection \<open>Data\<close>

text \<open>The exceptions the script can meet.  \<open>UnsupportedDeviceError\<close> and \<open>PyException\<close>
  (any other subclass of \<open>Exception\<close>, with its \<open>str\<close> text) are what \<open>except Exception\<close>
  catches; \<open>PyBaseException\<close> stands for the signals that derive from \<open>BaseException\<close>
  only (keyboard interrupt, cancellation), which no handler of the script catches.\<close>

datatype py_exception =
    UnsupportedDeviceError
  | PyException string
  | PyBaseException string

datatype 'a result = Returned 'a | Raised py_exception

text \<open>A discovered device (bleak's \<open>BLEDevice\<close>): the address and the optional name.\<close>

record ble_device =
  address :: string
  name :: "string option"

text \<open>The values a sensor mapping holds; \<open>None\<close> for a sensor without a reading.\<close>

datatype pyval = PyStr string | PyInt int | PyFloat real | PyNone

datatype device_type = DeviceType (product_name: string)

text \<open>A device reading (the \<open>AirthingsDevice\<close> that \<open>update_device\<close> returns).  The sensor
  mapping is a Python dict: an association list in insertion order whose keys are distinct.\<close>

record airthings_device =
  name :: string
  model :: "device_type option"
  manufacturer :: string
  device_identifier :: string
  sw_version :: string
  address :: string
  sensors :: "(string, pyval) alist"

text \<open>(The field \<open>device_identifier\<close> is the source's \<open>identifier\<close>, a reserved word here.)\<close>

text \<open>The namespace that \<open>parse_args\<close> returns (lines 25-31).  \<open>parse_args\<close> declares
  \<open>--timeout\<close> with \<open>type=float\<close> and a default of 8.0 and nothing else: no range is
  checked there.  The script never computes with the timeout, it hands it on and formats
  it; it is a real number here.\<close>

record args =
  connect :: "string option"
  timeout :: real
  imperial :: bool
  debug :: bool

datatype log_level = DEBUG | INFO

datatype event =
    Print string
  | LogError string
  | BasicConfig log_level
  | Discover real
  | UpdateDevice bool ble_device

text \<open>The world: how many external BLE calls have been made, and the trace so far.\<close>

record world =
  ticks :: nat
  out :: "event list"

text \<open>The environment: the answer of the discovery primitive to a call with a given timeout,
  the answer of the device-update primitive for a unit system and a device (each may depend
  on how many external calls came before), and the text Python gives a float in an
  f-string.\<close>

record env =
  discover_at :: "nat \<Rightarrow> real \<Rightarrow> py_exception + ble_device list"
  update_at :: "nat \<Rightarrow> bool \<Rightarrow> ble_device \<Rightarrow> py_exception + airthings_device"
  str_float :: "real \<Rightarrow> string"

subsection \<open>Python built-ins the script relies on\<close>

definition lower_char :: "char \<Rightarrow> char" where
  "lower_char c =
     (case map_of (zip ''ABCDEFGHIJKLMNOPQRSTUVWXYZ'' ''abcdefghijklmnopqrstuvwxyz'') c of
        Some l \<Rightarrow> l
      | None \<Rightarrow> c)"

text \<open>\<open>str.lower\<close> on ASCII text, which is what a Bluetooth address is: the letters
  \<open>A\<close> to \<open>Z\<close> are lowered, every other character is kept.\<close>

definition lower :: "string \<Rightarrow> string" where
  "lower s = map lower_char s"

definition digit_char :: "nat \<Rightarrow> char" where
  "digit_char n = ''0123456789'' ! (n mod 10)"

fun str_nat :: "nat \<Rightarrow> string" where
  "str_nat n = (if n < 10 then [digit_char n] else str_nat (n div 10) @ [digit_char n])"

declare str_nat.simps [simp del]

definition str_int :: "int \<Rightarrow> string" where
  "str_int i = (if i < 0 then ''-'' @ str_nat (nat (- i)) else str_nat (nat i))"

definition str_opt :: "string option \<Rightarrow> string" where
  "str_opt s = (case s of None \<Rightarrow> ''None'' | Some t \<Rightarrow> t)"

definition str_value :: "env \<Rightarrow> pyval \<Rightarrow> string" where
  "str_value E v =
     (case v of
        PyStr s \<Rightarrow> s
      | PyInt i \<Rightarrow> str_int i
      | PyFloat r \<Rightarrow> str_float E r
      | PyNone \<Rightarrow> ''None'')"

text \<open>Python's \<open>in\<close> on strings.\<close>

fun contains :: "string \<Rightarrow> string \<Rightarrow> bool" where
  "contains [] p = (p = [])"
| "contains (c # cs) p = (take (length p) (c # cs) = p \<or> contains cs p)"

subsection \<open>Effects\<close>

definition print :: "string \<Rightarrow> world \<Rightarrow> world" where
  "print s w = w\<lparr>out := out w @ [Print s]\<rparr>"

definition log_error :: "string \<Rightarrow> world \<Rightarrow> world" where
  "log_error s w = w\<lparr>out := out w @ [LogError s]\<rparr>"

definition basic_config :: "log_level \<Rightarrow> world \<Rightarrow> world" where
  "basic_config l w = w\<lparr>out := out w @ [BasicConfig l]\<rparr>"

definition discover :: "env \<Rightarrow> real \<Rightarrow> world \<Rightarrow> (py_exception + ble_device list) \<times> world" where
  "discover E t w =
     (discover_at E (ticks w) t, w\<lparr>ticks := Suc (ticks w), out := out w @ [Discover t]\<rparr>)"

definition update_device ::
  "env \<Rightarrow> bool \<Rightarrow> ble_device \<Rightarrow> world \<Rightarrow> (py_exception + airthings_device) \<times> world" where
  "update_device E is_metric d w =
     (update_at E (ticks w) is_metric d,
      w\<lparr>ticks := Suc (ticks w), out := out w @ [UpdateDevice is_metric d]\<rparr>)"

subsection \<open>scan (lines 34-42)\<close>

definition scan :: "env \<Rightarrow> real \<Rightarrow> world \<Rightarrow> ble_device list result \<times> world" where
  "scan E t w0 =
     (let w1 = print (''Scanning for BLE devices for '' @ str_float E t @ '' seconds...'') w0 in
      case discover E t w1 of
        (Inl e, w2) \<Rightarrow> (Raised e, w2)
      | (Inr devices, w2) \<Rightarrow>
          if devices = [] then (Returned [], print ''No BLE devices found'' w2)
          else (Returned devices,
                print (''Found '' @ str_nat (length devices) @ '' device(s)'') w2))"

subsection \<open>print_device (lines 45-56)\<close>

text \<open>Reading \<open>product_name\<close> from an absent model is an \<open>AttributeError\<close>.\<close>

definition product_name_of :: "device_type option \<Rightarrow> py_exception + string" where
  "product_name_of m =
     (case m of
        None \<Rightarrow> Inl (PyException ''AttributeError'')
      | Some t \<Rightarrow> Inr (product_name t))"

text \<open>The conditional expression of the model line.\<close>

definition model_text :: "device_type option \<Rightarrow> py_exception + string" where
  "model_text m = (if m \<noteq> None then product_name_of m else Inr ''None'')"

text \<open>\<open>sorted(device.sensors.items())\<close>: the items are pairs with distinct keys, so the
  tuple order never looks past the key; Python's sort is stable, as \<open>sort_key\<close> is.\<close>

definition sorted_items :: "(string, pyval) alist \<Rightarrow> (string \<times> pyval) list" where
  "sorted_items s = sort_key fst (DAList.impl_of s)"

definition sensor_line :: "env \<Rightarrow> string \<times> pyval \<Rightarrow> string" where
  "sensor_line E kv = ''  '' @ fst kv @ '': '' @ str_value E (snd kv)"

definition print_device :: "env \<Rightarrow> airthings_device \<Rightarrow> world \<Rightarrow> unit result \<times> world" where
  "print_device E device w0 =
     (let w1 = print ''Device info:'' w0;
          w2 = print (''  Name: '' @ airthings_device.name device) w1
      in case model_text (model device) of
           Inl e \<Rightarrow> (Raised e, w2)
         | Inr m \<Rightarrow>
             (let w3 = print (''  Model: '' @ m) w2;
                  w4 = print (''  Manufacturer: '' @ manufacturer device) w3;
                  w5 = print (''  Serial: '' @ device_identifier device) w4;
                  w6 = print (''  Firmware: '' @ sw_version device) w5;
                  w7 = print (''  Address: '' @ airthings_device.address device) w6;
                  w8 = print ''Sensors:'' w7;
                  w9 = fold (\<lambda>kv. print (sensor_line E kv)) (sorted_items (sensors device)) w8
              in (Returned (), print [CHR 0x0A] w9)))"

subsection \<open>connect_and_read (lines 59-81)\<close>

text \<open>The search loop: the first device whose lowered address equals the lowered target.\<close>

fun find_target :: "string \<Rightarrow> ble_device list \<Rightarrow> ble_device option" where
  "find_target addr [] = None"
| "find_target addr (d # ds) =
     (if lower (ble_device.address d) = lower addr then Some d else find_target addr ds)"

text \<open>The \<open>try\<close> statement of \<open>connect_and_read\<close>, with its two handlers.\<close>

definition connect_try :: "env \<Rightarrow> bool \<Rightarrow> ble_device \<Rightarrow> world \<Rightarrow> unit result \<times> world" where
  "connect_try E is_metric target w0 =
     (let w1 = print (''Connecting to '' @ ble_device.address target @ '' ...'') w0;
          body = (case update_device E is_metric target w1 of
                    (Inl e, w2) \<Rightarrow> (Raised e, w2)
                  | (Inr device, w2) \<Rightarrow> print_device E device w2)
      in case body of
           (Returned u, w) \<Rightarrow> (Returned (), w)
         | (Raised UnsupportedDeviceError, w) \<Rightarrow>
             (Returned (), log_error ''The device is not a supported Airthings device.'' w)
         | (Raised (PyException exc), w) \<Rightarrow>
             (Returned (), log_error (''Error connecting/reading device: '' @ exc) w)
         | (Raised (PyBaseException exc), w) \<Rightarrow> (Raised (PyBaseException exc), w))"

definition connect_and_read ::
  "env \<Rightarrow> string \<Rightarrow> real \<Rightarrow> bool \<Rightarrow> world \<Rightarrow> unit result \<times> world" where
  "connect_and_read E addr t is_metric w0 =
     (case discover E t w0 of
        (Inl e, w1) \<Rightarrow> (Raised e, w1)
      | (Inr devices, w1) \<Rightarrow>
          (case find_target addr devices of
             None \<Rightarrow>
               (Returned (),
                print ''Run without --connect to list available addresses.''
                  (print (''Device with address '' @ addr @ '' not found during scan.'') w1))
           | Some target \<Rightarrow> connect_try E is_metric target w1))"

subsection \<open>auto_find_and_read (lines 84-101)\<close>

text \<open>The body of the loop: the \<open>try\<close> statement with its two handlers.\<close>

definition auto_try :: "env \<Rightarrow> bool \<Rightarrow> ble_device \<Rightarrow> world \<Rightarrow> unit result \<times> world" where
  "auto_try E is_metric d w0 =
     (let w1 = print (''Attempting to read '' @ ble_device.address d @ '' (''
                      @ str_opt (ble_device.name d) @ '')'') w0;
          body = (case update_device E is_metric d w1 of
                    (Inl e, w2) \<Rightarrow> (Raised e, w2)
                  | (Inr device, w2) \<Rightarrow> print_device E device w2)
      in case body of
           (Returned u, w) \<Rightarrow> (Returned (), w)
         | (Raised UnsupportedDeviceError, w) \<Rightarrow>
             (Returned (),
              log_error (''Unsupported Airthings device at '' @ ble_device.address d) w)
         | (Raised (PyException exc), w) \<Rightarrow>
             (Returned (),
              log_error (''Error reading '' @ ble_device.address d @ '': '' @ exc) w)
         | (Raised (PyBaseException exc), w) \<Rightarrow> (Raised (PyBaseException exc), w))"

fun auto_loop :: "env \<Rightarrow> bool \<Rightarrow> ble_device list \<Rightarrow> world \<Rightarrow> unit result \<times> world" where
  "auto_loop E is_metric [] w = (Returned (), w)"
| "auto_loop E is_metric (d # ds) w =
     (case auto_try E is_metric d w of
        (Returned u, w') \<Rightarrow> auto_loop E is_metric ds w'
      | (Raised e, w') \<Rightarrow> (Raised e, w'))"

definition auto_find_and_read :: "env \<Rightarrow> real \<Rightarrow> bool \<Rightarrow> world \<Rightarrow> unit result \<times> world" where
  "auto_find_and_read E t is_metric w0 =
     (case discover E t w0 of
        (Inl e, w1) \<Rightarrow> (Raised e, w1)
      | (Inr devices, w1) \<Rightarrow>
          if devices = [] then (Returned (), print ''No BLE devices found'' w1)
          else auto_loop E is_metric devices w1)"

subsection \<open>main (lines 104-113)\<close>

text \<open>\<open>if args.connect\<close>: an absent or empty address selects the default mode, which
  lists (\<open>scan\<close>) and then reads (\<open>auto_find_and_read\<close>).  The value \<open>scan\<close> returns is
  dropped.\<close>

definition main :: "env \<Rightarrow> args \<Rightarrow> world \<Rightarrow> unit result \<times> world" where
  "main E a w0 =
     (let w1 = basic_config (if debug a then DEBUG else INFO) w0 in
      if connect a \<noteq> None \<and> connect a \<noteq> Some []
      then connect_and_read E (the (connect a)) (timeout a) (\<not> imperial a) w1
      else (case scan E (timeout a) w1 of
              (Raised e, w2) \<Rightarrow> (Raised e, w2)
            | (Returned ds, w2) \<Rightarrow> auto_find_and_read E (timeout a) (\<not> imperial a) w2))"

subsection \<open>Reading a trace\<close>

text \<open>The devices on which \<open>update_device\<close> was called, the discovery calls, and the
  printed and logged texts of a trace, each in order.\<close>

fun reads :: "event list \<Rightarrow> ble_device list" where
  "reads [] = []"
| "reads (UpdateDevice m d # es) = d # reads es"
| "reads (e # es) = reads es"

fun discoveries :: "event list \<Rightarrow> real list" where
  "discoveries [] = []"
| "discoveries (Discover t # es) = t # discoveries es"
| "discoveries (e # es) = discoveries es"

fun printed :: "event list \<Rightarrow> string list" where
  "printed [] = []"
| "printed (Print s # es) = s # printed es"
| "printed (e # es) = printed es"

fun logged :: "event list \<Rightarrow> string list" where
  "logged [] = []"
| "logged (LogError s # es) = s # logged es"
| "logged (e # es) = logged es"

text \<open>The lines \<open>print_device\<close> writes before the sensors, for a device whose model line
  shows the text \<open>m\<close>.\<close>

definition header_lines :: "airthings_device \<Rightarrow> string \<Rightarrow> string list" where
  "header_lines device m =
     [''Device info:'',
      ''  Name: '' @ airthings_device.name device,
      ''  Model: '' @ m,
      ''  Manufacturer: '' @ manufacturer device,
      ''  Serial: '' @ device_identifier device,
      ''  Firmware: '' @ sw_version device,
      ''  Address: '' @ airthings_device.address device]"

text \<open>The whole block of a reading: header, the sensors in key order, the closing line.\<close>

definition reading_block :: "env \<Rightarrow> airthings_device \<Rightarrow> event list" where
  "reading_block E device =
     map Print
       (header_lines device (case model device of None \<Rightarrow> ''None'' | Some t \<Rightarrow> product_name t)
        @ [''Sensors:'']
        @ map (sensor_line E) (sorted_items (sensors device))
        @ [[CHR 0x0A]])"

subsection \<open>Concrete devices and environments\<close>

text \<open>\<open>dict(pairs)\<close>: the pairs are inserted in order, a repeated key keeps its first
  position and takes the last value.\<close>

definition dict_of :: "(string \<times> pyval) list \<Rightarrow> (string, pyval) alist" where
  "dict_of kvs = fold (\<lambda>kv. DAList.update (fst kv) (snd kv)) kvs DAList.empty"

definition dev_a :: ble_device where
  "dev_a = \<lparr>ble_device.address = ''AA:BB:CC:DD:EE:01'', ble_device.name = Some ''Wave Plus''\<rparr>"

definition dev_b :: ble_device where
  "dev_b = \<lparr>ble_device.address = ''AA:BB:CC:DD:EE:02'', ble_device.name = None\<rparr>"

definition dev_c :: ble_device where
  "dev_c = \<lparr>ble_device.address = ''aa:bb:cc:dd:ee:01'', ble_device.name = Some ''Corentium''\<rparr>"

definition reading_a :: airthings_device where
  "reading_a =
     \<lparr>name = ''Wave Plus'', model = Some (DeviceType ''Wave Plus''),
      manufacturer = ''Airthings AS'', device_identifier = ''123456'', sw_version = ''G-BLE-1.5.3'',
      address = ''AA:BB:CC:DD:EE:01'',
      sensors = dict_of [(''radon_1day_avg'', PyInt 12), (''co2'', PyFloat 400),
                              (''humidity'', PyNone)]\<rparr>"

definition reading_a' :: airthings_device where
  "reading_a' =
     reading_a\<lparr>sensors := dict_of [(''humidity'', PyNone), (''radon_1day_avg'', PyInt 12),
                                        (''co2'', PyFloat 400)]\<rparr>"

definition reading_c :: airthings_device where
  "reading_c =
     \<lparr>name = ''Corentium'', model = None,
      manufacturer = ''Airthings AS'', device_identifier = ''654321'', sw_version = ''1.0'',
      address = ''aa:bb:cc:dd:ee:01'',
      sensors = dict_of [(''battery'', PyInt 87)]\<rparr>"

definition world0 :: world where
  "world0 = \<lparr>ticks = 0, out = []\<rparr>"

text \<open>Three devices in range; the second is not an Airthings device.\<close>

definition env_three :: env where
  "env_three =
     \<lparr>discover_at = (\<lambda>k t. Inr [dev_a, dev_b, dev_c]),
      update_at = (\<lambda>k m d. if d = dev_b then Inl UnsupportedDeviceError
                            else if d = dev_a then Inr reading_a else Inr reading_c),
      str_float = (\<lambda>r. if r = 0 then ''0.0'' else if r = 400 then ''400.0'' else ''8.0'')\<rparr>"

text \<open>Nothing in range.\<close>

definition env_empty :: env where
  "env_empty = env_three\<lparr>discover_at := (\<lambda>k t. Inr [])\<rparr>"

text \<open>The first pass sees one device, every later pass the two others.\<close>

definition env_moving :: env where
  "env_moving =
     env_three\<lparr>discover_at := (\<lambda>k t. if k = 0 then Inr [dev_a] else Inr [dev_b, dev_c])\<rparr>"

text \<open>A read that fails with a transport error.\<close>

definition env_failing :: env where
  "env_failing = env_three\<lparr>update_at := (\<lambda>k m d. Inl (PyException ''TimeoutError''))\<rparr>"

text \<open>Two devices whose addresses differ in case only, after a device that does not match.\<close>

definition env_twins :: env where
  "env_twins = env_three\<lparr>discover_at := (\<lambda>k t. Inr [dev_b, dev_c, dev_a])\<rparr>"

text \<open>The namespace of a run without arguments.\<close>

definition default_args :: args where
  "default_args = \<lparr>connect = None, timeout = 8, imperial = False, debug = False\<rparr>"

section \<open>Auxiliary facts\<close>

lemma model_text_total:
  "model_text m = Inr (case m of None \<Rightarrow> ''None'' | Some t \<Rightarrow> product_name t)"
  by (cases m) (simp_all add: model_text_def product_name_of_def)

lemma fold_print:
  "fold (\<lambda>kv. print (f kv)) xs w = w\<lparr>out := out w @ map (\<lambda>kv. Print (f kv)) xs\<rparr>"
  by (induction xs arbitrary: w) (simp_all add: print_def)

lemma print_device_block:
  "print_device E device w = (Returned (), w\<lparr>out := out w @ reading_block E device\<rparr>)"
  by (simp add: print_device_def model_text_total fold_print reading_block_def header_lines_def
      print_def Let_def)

lemma reads_append: "reads (xs @ ys) = reads xs @ reads ys"
  by (induction xs rule: reads.induct) simp_all

lemma discoveries_append: "discoveries (xs @ ys) = discoveries xs @ discoveries ys"
  by (induction xs rule: discoveries.induct) simp_all

lemma printed_append: "printed (xs @ ys) = printed xs @ printed ys"
  by (induction xs rule: printed.induct) simp_all

lemma logged_append: "logged (xs @ ys) = logged xs @ logged ys"
  by (induction xs rule: logged.induct) simp_all

lemma reads_prints: "reads (map Print ls) = []"
  by (induction ls) simp_all

lemma discoveries_prints: "discoveries (map Print ls) = []"
  by (induction ls) simp_all

lemma logged_prints: "logged (map Print ls) = []"
  by (induction ls) simp_all

lemma reads_block: "reads (reading_block E device) = []"
  unfolding reading_block_def by (rule reads_prints)

lemma discoveries_block: "discoveries (reading_block E device) = []"
  unfolding reading_block_def by (rule discoveries_prints)

lemma logged_block: "logged (reading_block E device) = []"
  unfolding reading_block_def by (rule logged_prints)

lemma auto_try_ok:
  assumes "update_at E (ticks w) m d = Inr r"
  shows "auto_try E m d w =
    (Returned (),
     w\<lparr>ticks := Suc (ticks w),
       out := out w @ [Print (''Attempting to read '' @ ble_device.address d @ '' (''
                              @ str_opt (ble_device.name d) @ '')''),
                       UpdateDevice m d] @ reading_block E r\<rparr>)"
  using assms
  by (simp add: auto_try_def update_device_def print_def print_device_block Let_def)

lemma auto_try_unsupported:
  assumes "update_at E (ticks w) m d = Inl UnsupportedDeviceError"
  shows "auto_try E m d w =
    (Returned (),
     w\<lparr>ticks := Suc (ticks w),
       out := out w @ [Print (''Attempting to read '' @ ble_device.address d @ '' (''
                              @ str_opt (ble_device.name d) @ '')''),
                       UpdateDevice m d,
                       LogError (''Unsupported Airthings device at '' @ ble_device.address d)]\<rparr>)"
  using assms
  by (simp add: auto_try_def update_device_def print_def log_error_def Let_def)

lemma auto_try_exception:
  assumes "update_at E (ticks w) m d = Inl (PyException x)"
  shows "auto_try E m d w =
    (Returned (),
     w\<lparr>ticks := Suc (ticks w),
       out := out w @ [Print (''Attempting to read '' @ ble_device.address d @ '' (''
                              @ str_opt (ble_device.name d) @ '')''),
                       UpdateDevice m d,
                       LogError (''Error reading '' @ ble_device.address d @ '': '' @ x)]\<rparr>)"
  using assms
  by (simp add: auto_try_def update_device_def print_def log_error_def Let_def)

lemma connect_try_ok:
  assumes "update_at E (ticks w) m d = Inr r"
  shows "connect_try E m d w =
    (Returned (),
     w\<lparr>ticks := Suc (ticks w),
       out := out w @ [Print (''Connecting to '' @ ble_device.address d @ '' ...''),
                       UpdateDevice m d] @ reading_block E r\<rparr>)"
  using assms
  by (simp add: connect_try_def update_device_def print_def print_device_block Let_def)

lemma connect_try_unsupported:
  assumes "update_at E (ticks w) m d = Inl UnsupportedDeviceError"
  shows "connect_try E m d w =
    (Returned (),
     w\<lparr>ticks := Suc (ticks w),
       out := out w @ [Print (''Connecting to '' @ ble_device.address d @ '' ...''),
                       UpdateDevice m d,
                       LogError ''The device is not a supported Airthings device.'']\<rparr>)"
  using assms
  by (simp add: connect_try_def update_device_def print_def log_error_def Let_def)

lemma connect_try_exception:
  assumes "update_at E (ticks w) m d = Inl (PyException x)"
  shows "connect_try E m d w =
    (Returned (),
     w\<lparr>ticks := Suc (ticks w),
       out := out w @ [Print (''Connecting to '' @ ble_device.address d @ '' ...''),
                       UpdateDevice m d,
                       LogError (''Error connecting/reading device: '' @ x)]\<rparr>)"
  using assms
  by (simp add: connect_try_def update_device_def print_def log_error_def Let_def)

lemma connect_try_reads:
  "reads (out (snd (connect_try E m d w))) = reads (out w) @ [d]"
proof (cases "update_at E (ticks w) m d")
  case (Inl e)
  then show ?thesis
    by (cases e)
      (simp_all add: connect_try_def update_device_def print_def log_error_def Let_def
        reads_append)
next
  case (Inr r)
  then show ?thesis
    by (simp add: connect_try_ok reads_append reads_block)
qed

lemma auto_try_returns:
  assumes "\<forall>x. update_at E (ticks w) m d \<noteq> Inl (PyBaseException x)"
  shows "\<exists>w'. auto_try E m d w = (Returned (), w') \<and> reads (out w') = reads (out w) @ [d]
           \<and> discoveries (out w') = discoveries (out w) \<and> ticks w' = Suc (ticks w)"
proof (cases "update_at E (ticks w) m d")
  case (Inl e)
  with assms show ?thesis
    by (cases e)
      (simp_all add: auto_try_unsupported auto_try_exception reads_append discoveries_append)
next
  case (Inr r)
  then show ?thesis
    by (simp add: auto_try_ok reads_append discoveries_append reads_block discoveries_block)
qed

lemma auto_loop_reads_all:
  assumes "\<forall>k d x. update_at E k m d \<noteq> Inl (PyBaseException x)"
  shows "\<exists>w'. auto_loop E m ds w = (Returned (), w') \<and> reads (out w') = reads (out w) @ ds
           \<and> discoveries (out w') = discoveries (out w) \<and> ticks w' = ticks w + length ds"
proof (induction ds arbitrary: w)
  case Nil
  show ?case by simp
next
  case (Cons d ds)
  from assms obtain w1 where step: "auto_try E m d w = (Returned (), w1)"
    and r1: "reads (out w1) = reads (out w) @ [d]"
    and d1: "discoveries (out w1) = discoveries (out w)"
    and t1: "ticks w1 = Suc (ticks w)"
    using auto_try_returns [of E w m d] by blast
  from Cons.IH [of w1] obtain w' where rest: "auto_loop E m ds w1 = (Returned (), w')"
    and r2: "reads (out w') = reads (out w1) @ ds"
    and d2: "discoveries (out w') = discoveries (out w1)"
    and t2: "ticks w' = ticks w1 + length ds"
    by blast
  show ?case
    using step rest r1 r2 d1 d2 t1 t2 by simp
qed

lemma find_target_none:
  "(find_target addr ds = None) = (\<forall>d \<in> set ds. lower (ble_device.address d) \<noteq> lower addr)"
  by (induction ds) simp_all

lemma find_target_some:
  "find_target addr ds = Some d \<Longrightarrow> d \<in> set ds \<and> lower (ble_device.address d) = lower addr"
  by (induction ds) (auto split: if_splits)

lemma find_target_first:
  assumes "\<forall>x \<in> set pre. lower (ble_device.address x) \<noteq> lower addr"
    and "lower (ble_device.address d) = lower addr"
  shows "find_target addr (pre @ d # post) = Some d"
  using assms by (induction pre) simp_all

lemma contains_empty: "contains s []"
  by (cases s) simp_all

lemma contains_self: "contains (a @ s) a"
  by (cases a) (simp_all add: contains_empty)

lemma contains_append: "contains s a \<Longrightarrow> contains (p @ s) a"
  by (induction p) simp_all

lemma scan_returned:
  assumes "discover_at E (ticks w) t = Inr ds"
  shows "scan E t w =
    (Returned ds,
     w\<lparr>ticks := Suc (ticks w),
       out := out w
         @ [Print (''Scanning for BLE devices for '' @ str_float E t @ '' seconds...''),
            Discover t,
            Print (if ds = [] then ''No BLE devices found''
                   else ''Found '' @ str_nat (length ds) @ '' device(s)'')]\<rparr>)"
  using assms by (simp add: scan_def discover_def print_def Let_def)

lemma auto_find_and_read_reads:
  assumes "discover_at E (ticks w) t = Inr ds"
    and "\<forall>k d x. update_at E k m d \<noteq> Inl (PyBaseException x)"
  shows "\<exists>w'. auto_find_and_read E t m w = (Returned (), w')
           \<and> reads (out w') = reads (out w) @ ds
           \<and> discoveries (out w') = discoveries (out w) @ [t]"
proof (cases "ds = []")
  case True
  with assms(1) show ?thesis
    by (simp add: auto_find_and_read_def discover_def print_def reads_append
        discoveries_append)
next
  case False
  let ?w1 = "w\<lparr>ticks := Suc (ticks w), out := out w @ [Discover t]\<rparr>"
  from auto_loop_reads_all [OF assms(2), of ds ?w1]
  obtain w' where "auto_loop E m ds ?w1 = (Returned (), w')"
    and "reads (out w') = reads (out ?w1) @ ds"
    and "discoveries (out w') = discoveries (out ?w1)"
    by blast
  with assms(1) False show ?thesis
    by (simp add: auto_find_and_read_def discover_def reads_append discoveries_append)
qed

lemma sorted_items_keys: "sorted (map fst (sorted_items s))"
  by (simp add: sorted_items_def)

lemma sorted_items_distinct: "distinct (map fst (sorted_items s))"
proof -
  have "mset (map fst (sorted_items s)) = mset (map fst (DAList.impl_of s))"
    by (simp add: sorted_items_def)
  then have "distinct (map fst (sorted_items s)) = distinct (map fst (DAList.impl_of s))"
    by (rule mset_eq_imp_distinct_iff)
  then show ?thesis by simp
qed

lemma sorted_items_order_free:
  assumes "set (DAList.impl_of s') = set (DAList.impl_of s)"
  shows "sorted_items s' = sorted_items s"
proof -
  have d': "distinct (map fst (DAList.impl_of s'))" and d: "distinct (map fst (DAList.impl_of s))"
    by simp_all
  then have "distinct (DAList.impl_of s')" and "distinct (DAList.impl_of s)"
    by (simp_all add: distinct_map)
  with assms have "mset (DAList.impl_of s') = mset (DAList.impl_of s)"
    by (simp add: set_eq_iff_mset_eq_distinct)
  moreover from d' have "inj_on fst (set (DAList.impl_of s'))"
    by (simp add: distinct_map)
  ultimately show ?thesis
    unfolding sorted_items_def by (rule sort_key_eq_sort_key)
qed

section \<open>The claims\<close>

subsection \<open>C1: the discovery step and a timeout that is not positive\<close>

text \<open>
  C1 (as amended).  For every timeout value, zero and negative values included, \<open>scan\<close>
  checks nothing: it prints the scanning message and makes exactly one discovery call, with
  the timeout unchanged.  It returns the devices of that call, or lets through what the
  discovery primitive raises.
\<close>

theorem scan_passes_timeout_unchecked:
  "out (snd (scan E t w)) =
     out w @ [Print (''Scanning for BLE devices for '' @ str_float E t @ '' seconds...''),
              Discover t]
       @ (case discover_at E (ticks w) t of
            Inl e \<Rightarrow> []
          | Inr ds \<Rightarrow> [Print (if ds = [] then ''No BLE devices found''
                               else ''Found '' @ str_nat (length ds) @ '' device(s)'')])
   \<and> fst (scan E t w) =
       (case discover_at E (ticks w) t of Inl e \<Rightarrow> Raised e | Inr ds \<Rightarrow> Returned ds)
   \<and> discoveries (out (snd (scan E t w))) = discoveries (out w) @ [t]"
  by (simp add: scan_def discover_def print_def Let_def discoveries_append
      split: sum.split)

text \<open>The amended statement at a negative timeout with three devices in range.\<close>

theorem scan_passes_timeout_unchecked_witness:
  "fst (scan env_three (- 1) world0) = Returned [dev_a, dev_b, dev_c]
   \<and> discoveries (out (snd (scan env_three (- 1) world0))) = [- 1]"
  using scan_passes_timeout_unchecked [of env_three "- 1" world0]
  by (simp add: env_three_def world0_def)

text \<open>
  C1 as stated fails: with a timeout of 0 and nothing in range, \<open>scan\<close> is not rejected.
  It makes the discovery call and returns the empty list; a default run of \<open>main\<close> with
  that timeout makes two discovery calls.
\<close>

theorem scan_nonpositive_timeout_counterexample:
  "scan env_empty 0 world0 =
     (Returned [],
      \<lparr>ticks = 1,
       out = [Print ''Scanning for BLE devices for 0.0 seconds...'', Discover 0,
              Print ''No BLE devices found'']\<rparr>)
   \<and> fst (main env_empty (default_args\<lparr>timeout := 0\<rparr>) world0) = Returned ()
   \<and> discoveries (out (snd (main env_empty (default_args\<lparr>timeout := 0\<rparr>) world0))) = [0, 0]"
  by (simp add: main_def scan_def auto_find_and_read_def discover_def print_def basic_config_def
      env_empty_def env_three_def world0_def default_args_def Let_def)

subsection \<open>C2: an unsupported device between two supported ones\<close>

text \<open>
  C2.  When discovery returns \<open>[A, B, C]\<close>, the read of \<open>B\<close> fails with
  \<open>UnsupportedDeviceError\<close> and the reads of \<open>A\<close> and \<open>C\<close> succeed,
  \<open>auto_find_and_read\<close> returns normally after printing the reading of \<open>A\<close>, logging
  one unsupported-device message for \<open>B\<close>, and printing the reading of \<open>C\<close>, in that
  order.  The failure of \<open>B\<close> does not stop the loop.
\<close>

theorem auto_find_and_read_continues_after_unsupported:
  assumes "discover_at E (ticks w) t = Inr [A, B, C]"
    and "update_at E (Suc (ticks w)) m A = Inr ra"
    and "update_at E (Suc (Suc (ticks w))) m B = Inl UnsupportedDeviceError"
    and "update_at E (Suc (Suc (Suc (ticks w)))) m C = Inr rc"
  shows "auto_find_and_read E t m w =
    (Returned (),
     w\<lparr>ticks := ticks w + 4,
       out := out w
         @ [Discover t,
            Print (''Attempting to read '' @ ble_device.address A @ '' (''
                   @ str_opt (ble_device.name A) @ '')''),
            UpdateDevice m A]
         @ reading_block E ra
         @ [Print (''Attempting to read '' @ ble_device.address B @ '' (''
                   @ str_opt (ble_device.name B) @ '')''),
            UpdateDevice m B,
            LogError (''Unsupported Airthings device at '' @ ble_device.address B),
            Print (''Attempting to read '' @ ble_device.address C @ '' (''
                   @ str_opt (ble_device.name C) @ '')''),
            UpdateDevice m C]
         @ reading_block E rc\<rparr>)"
  using assms
  by (simp add: auto_find_and_read_def discover_def auto_try_ok auto_try_unsupported)

text \<open>C2 on the three concrete devices: all three are read, one message is logged.\<close>

theorem auto_find_and_read_continues_after_unsupported_witness:
  "fst (auto_find_and_read env_three 8 True world0) = Returned ()
   \<and> reads (out (snd (auto_find_and_read env_three 8 True world0))) = [dev_a, dev_b, dev_c]
   \<and> logged (out (snd (auto_find_and_read env_three 8 True world0))) =
       [''Unsupported Airthings device at AA:BB:CC:DD:EE:02'']"
proof -
  have found: "discover_at env_three (ticks world0) 8 = Inr [dev_a, dev_b, dev_c]"
    by (simp add: env_three_def)
  have a: "update_at env_three (Suc (ticks world0)) True dev_a = Inr reading_a"
    by (simp add: env_three_def dev_a_def dev_b_def)
  have b: "update_at env_three (Suc (Suc (ticks world0))) True dev_b
             = Inl UnsupportedDeviceError"
    by (simp add: env_three_def)
  have c: "update_at env_three (Suc (Suc (Suc (ticks world0)))) True dev_c = Inr reading_c"
    by (simp add: env_three_def dev_a_def dev_b_def dev_c_def)
  have addr_b: "ble_device.address dev_b = ''AA:BB:CC:DD:EE:02''"
    by (simp add: dev_b_def)
  show ?thesis
    unfolding auto_find_and_read_continues_after_unsupported [OF found a b c]
    by (simp add: reads_append logged_append reads_block logged_block addr_b world0_def)
qed

subsection \<open>C3: a target address that is not in range\<close>

text \<open>
  C3.  When no discovered device has the target address (compared after lowering both),
  \<open>connect_and_read\<close> prints the two not-found lines, calls \<open>update_device\<close> not at all and
  returns normally; a run of \<open>main\<close> with that \<open>--connect\<close> address ends the same way.
\<close>

theorem connect_and_read_not_found:
  assumes "discover_at E (ticks w) t = Inr ds"
    and "\<forall>d \<in> set ds. lower (ble_device.address d) \<noteq> lower addr"
  shows "connect_and_read E addr t m w =
      (Returned (),
       w\<lparr>ticks := Suc (ticks w),
         out := out w
           @ [Discover t,
              Print (''Device with address '' @ addr @ '' not found during scan.''),
              Print ''Run without --connect to list available addresses.'']\<rparr>)
   \<and> reads (out (snd (connect_and_read E addr t m w))) = reads (out w)
   \<and> (connect a = Some addr \<and> addr \<noteq> [] \<and> timeout a = t \<longrightarrow>
        fst (main E a w) = Returned () \<and> reads (out (snd (main E a w))) = reads (out w))"
proof -
  from assms(2) have none: "find_target addr ds = None"
    by (simp add: find_target_none)
  have run: "connect_and_read E addr t m w' =
      (Returned (),
       w'\<lparr>ticks := Suc (ticks w'),
         out := out w'
           @ [Discover t,
              Print (''Device with address '' @ addr @ '' not found during scan.''),
              Print ''Run without --connect to list available addresses.'']\<rparr>)"
    if "ticks w' = ticks w" for w' m
    using that assms(1) none by (simp add: connect_and_read_def discover_def print_def)
  have "fst (main E a w) = Returned () \<and> reads (out (snd (main E a w))) = reads (out w)"
    if "connect a = Some addr" and "addr \<noteq> []" and "timeout a = t"
    using that run [of "basic_config (if debug a then DEBUG else INFO) w" "\<not> imperial a"]
    by (simp add: main_def Let_def basic_config_def reads_append)
  then show ?thesis
    using run [of w m] by (simp add: reads_append)
qed

text \<open>C3 for an address that none of the three concrete devices has.\<close>

theorem connect_and_read_not_found_witness:
  "connect_and_read env_three ''00:11:22:33:44:55'' 8 True world0 =
     (Returned (),
      \<lparr>ticks = 1,
       out = [Discover 8,
              Print ''Device with address 00:11:22:33:44:55 not found during scan.'',
              Print ''Run without --connect to list available addresses.'']\<rparr>)
   \<and> fst (main env_three (default_args\<lparr>connect := Some ''00:11:22:33:44:55''\<rparr>) world0)
       = Returned ()"
proof -
  have found: "discover_at env_three (ticks world0) 8 = Inr [dev_a, dev_b, dev_c]"
    by (simp add: env_three_def)
  have differ: "\<forall>d \<in> set [dev_a, dev_b, dev_c].
      lower (ble_device.address d) \<noteq> lower ''00:11:22:33:44:55''"
    by (simp add: dev_a_def dev_b_def dev_c_def lower_def lower_char_def)
  show ?thesis
    using connect_and_read_not_found [OF found differ,
        of True "default_args\<lparr>connect := Some ''00:11:22:33:44:55''\<rparr>"]
    by (simp add: world0_def default_args_def)
qed

subsection \<open>C4: a target address that is in range\<close>

text \<open>
  C4.  When some discovered device has the target address (compared after lowering both),
  \<open>connect_and_read\<close> calls \<open>update_device\<close> exactly once, on a discovered device whose
  lowered address equals the lowered target.
\<close>

theorem connect_and_read_one_read:
  assumes "discover_at E (ticks w) t = Inr ds"
    and "\<exists>d \<in> set ds. lower (ble_device.address d) = lower addr"
  shows "\<exists>d \<in> set ds. lower (ble_device.address d) = lower addr
           \<and> reads (out (snd (connect_and_read E addr t m w))) = reads (out w) @ [d]"
proof -
  from assms(2) have "find_target addr ds \<noteq> None"
    by (simp add: find_target_none)
  then obtain d where found: "find_target addr ds = Some d"
    by blast
  then have "d \<in> set ds" and "lower (ble_device.address d) = lower addr"
    by (simp_all add: find_target_some)
  moreover from assms(1) found
  have "reads (out (snd (connect_and_read E addr t m w))) = reads (out w) @ [d]"
    by (simp add: connect_and_read_def discover_def connect_try_reads reads_append)
  ultimately show ?thesis by blast
qed

text \<open>C4 for the second concrete device, asked for in lower case.\<close>

theorem connect_and_read_one_read_witness:
  "reads (out (snd (connect_and_read env_three ''aa:bb:cc:dd:ee:02'' 8 True world0))) = [dev_b]"
proof -
  have found: "discover_at env_three (ticks world0) 8 = Inr [dev_a, dev_b, dev_c]"
    by (simp add: env_three_def)
  have present: "\<exists>d \<in> set [dev_a, dev_b, dev_c].
      lower (ble_device.address d) = lower ''aa:bb:cc:dd:ee:02''"
    by (simp add: dev_b_def lower_def lower_char_def)
  have not_a: "lower (ble_device.address dev_a) \<noteq> lower ''aa:bb:cc:dd:ee:02''"
    by (simp add: dev_a_def lower_def lower_char_def)
  have not_c: "lower (ble_device.address dev_c) \<noteq> lower ''aa:bb:cc:dd:ee:02''"
    by (simp add: dev_c_def lower_def lower_char_def)
  from connect_and_read_one_read [OF found present, of True]
  obtain d where "d \<in> set [dev_a, dev_b, dev_c]"
    and "lower (ble_device.address d) = lower ''aa:bb:cc:dd:ee:02''"
    and r: "reads (out (snd (connect_and_read env_three ''aa:bb:cc:dd:ee:02'' 8 True world0)))
              = reads (out world0) @ [d]"
    by blast
  with not_a not_c have "d = dev_b"
    by auto
  with r show ?thesis
    by (simp add: world0_def)
qed

subsection \<open>C5: the order of the sensor lines\<close>

text \<open>
  C5.  \<open>print_device\<close> prints the header, the line \<open>Sensors:\<close>, one line for each item of
  the sensor mapping, and a closing line.  The sensor lines come in ascending order of the
  sensor names, which are distinct, and cover exactly the items of the mapping; two
  mappings with the same items give the same lines, whatever their insertion order.
\<close>

theorem print_device_sensors_sorted:
  "out (snd (print_device E device w)) =
     out w
       @ map Print (header_lines device
                      (case model device of None \<Rightarrow> ''None'' | Some t \<Rightarrow> product_name t))
       @ [Print ''Sensors:'']
       @ map (\<lambda>kv. Print (''  '' @ fst kv @ '': '' @ str_value E (snd kv)))
           (sorted_items (sensors device))
       @ [Print [CHR 0x0A]]
   \<and> sorted (map fst (sorted_items (sensors device)))
   \<and> distinct (map fst (sorted_items (sensors device)))
   \<and> set (sorted_items (sensors device)) = set (DAList.impl_of (sensors device))
   \<and> (\<forall>device'. set (DAList.impl_of (sensors device')) = set (DAList.impl_of (sensors device))
         \<longrightarrow> sorted_items (sensors device') = sorted_items (sensors device))"
proof -
  have "out (snd (print_device E device w)) =
     out w
       @ map Print (header_lines device
                      (case model device of None \<Rightarrow> ''None'' | Some t \<Rightarrow> product_name t))
       @ [Print ''Sensors:'']
       @ map (\<lambda>kv. Print (''  '' @ fst kv @ '': '' @ str_value E (snd kv)))
           (sorted_items (sensors device))
       @ [Print [CHR 0x0A]]"
    by (simp add: print_device_block reading_block_def sensor_line_def comp_def)
  moreover have "set (sorted_items (sensors device)) = set (DAList.impl_of (sensors device))"
    by (simp add: sorted_items_def)
  ultimately show ?thesis
    using sorted_items_keys sorted_items_distinct sorted_items_order_free by blast
qed

text \<open>C5 on two readings that hold the same three sensors, inserted in different orders.\<close>

theorem print_device_sensors_sorted_witness:
  "DAList.impl_of (sensors reading_a') \<noteq> DAList.impl_of (sensors reading_a)
   \<and> sorted_items (sensors reading_a') = sorted_items (sensors reading_a)
   \<and> map fst (sorted_items (sensors reading_a)) = [''co2'', ''humidity'', ''radon_1day_avg'']"
proof -
  have a: "DAList.impl_of (sensors reading_a) =
      [(''radon_1day_avg'', PyInt 12), (''co2'', PyFloat 400), (''humidity'', PyNone)]"
    by (simp add: reading_a_def dict_of_def DAList.update.rep_eq DAList.empty.rep_eq)
  have a': "DAList.impl_of (sensors reading_a') =
      [(''humidity'', PyNone), (''radon_1day_avg'', PyInt 12), (''co2'', PyFloat 400)]"
    by (simp add: reading_a'_def dict_of_def DAList.update.rep_eq DAList.empty.rep_eq)
  have same: "set (DAList.impl_of (sensors reading_a')) = set (DAList.impl_of (sensors reading_a))"
    unfolding a a' by auto
  from print_device_sensors_sorted [of env_three reading_a world0] same
  have "sorted_items (sensors reading_a') = sorted_items (sensors reading_a)"
    by blast
  moreover
  have "map fst (sorted_items (sensors reading_a)) = [''co2'', ''humidity'', ''radon_1day_avg'']"
    unfolding sorted_items_def a by simp
  moreover have "DAList.impl_of (sensors reading_a') \<noteq> DAList.impl_of (sensors reading_a)"
    unfolding a a' by simp
  ultimately show ?thesis by blast
qed

subsection \<open>C6: nothing in range\<close>

text \<open>
  C6.  When discovery returns no device, \<open>auto_find_and_read\<close> prints the line
  \<open>No BLE devices found\<close> once, calls \<open>update_device\<close> not at all, and returns.
\<close>

theorem auto_find_and_read_empty:
  assumes "discover_at E (ticks w) t = Inr []"
  shows "auto_find_and_read E t m w =
    (Returned (),
     w\<lparr>ticks := Suc (ticks w),
       out := out w @ [Discover t, Print ''No BLE devices found'']\<rparr>)"
  using assms by (simp add: auto_find_and_read_def discover_def print_def)

text \<open>C6 in the empty environment.\<close>

theorem auto_find_and_read_empty_witness:
  "auto_find_and_read env_empty 8 True world0 =
     (Returned (), \<lparr>ticks = 1, out = [Discover 8, Print ''No BLE devices found'']\<rparr>)"
proof -
  have "discover_at env_empty (ticks world0) 8 = Inr []"
    by (simp add: env_empty_def)
  from auto_find_and_read_empty [OF this, of True] show ?thesis
    by (simp add: world0_def)
qed

subsection \<open>C7: a read that fails\<close>

text \<open>
  C7 (as amended).  When the read of a device fails with \<open>UnsupportedDeviceError\<close> or with
  any other \<open>Exception\<close>, the \<open>try\<close> statement of either mode catches it, logs one message
  at error level and returns normally.  In \<open>auto_find_and_read\<close> the message contains the
  address of the device.  In \<open>connect_and_read\<close> the message is the fixed text
  \<open>The device is not a supported Airthings device.\<close>, or \<open>Error connecting/reading device: \<close>
  followed by the text of the exception; the script adds no address to it.
\<close>

theorem read_failure_logged_and_contained:
  assumes "update_at E (ticks w) m d = Inl e"
    and "e = UnsupportedDeviceError \<or> e = PyException x"
  shows "auto_try E m d w =
      (Returned (),
       w\<lparr>ticks := Suc (ticks w),
         out := out w
           @ [Print (''Attempting to read '' @ ble_device.address d @ '' (''
                     @ str_opt (ble_device.name d) @ '')''),
              UpdateDevice m d,
              LogError (if e = UnsupportedDeviceError
                        then ''Unsupported Airthings device at '' @ ble_device.address d
                        else ''Error reading '' @ ble_device.address d @ '': '' @ x)]\<rparr>)
   \<and> contains (if e = UnsupportedDeviceError
               then ''Unsupported Airthings device at '' @ ble_device.address d
               else ''Error reading '' @ ble_device.address d @ '': '' @ x)
        (ble_device.address d)
   \<and> connect_try E m d w =
      (Returned (),
       w\<lparr>ticks := Suc (ticks w),
         out := out w
           @ [Print (''Connecting to '' @ ble_device.address d @ '' ...''),
              UpdateDevice m d,
              LogError (if e = UnsupportedDeviceError
                        then ''The device is not a supported Airthings device.''
                        else ''Error connecting/reading device: '' @ x)]\<rparr>)"
proof -
  have in_unsupported:
    "contains (''Unsupported Airthings device at '' @ ble_device.address d)
       (ble_device.address d)"
    using contains_self [of "ble_device.address d" "[]"]
    by (simp only: append_Nil2 contains_append)
  have in_other:
    "contains (''Error reading '' @ ble_device.address d @ '': '' @ x) (ble_device.address d)"
    by (rule contains_append) (rule contains_self)
  from assms(2) show ?thesis
  proof
    assume kind: "e = UnsupportedDeviceError"
    with assms(1) have "update_at E (ticks w) m d = Inl UnsupportedDeviceError"
      by simp
    then have "auto_try E m d w =
        (Returned (),
         w\<lparr>ticks := Suc (ticks w),
           out := out w
             @ [Print (''Attempting to read '' @ ble_device.address d @ '' (''
                       @ str_opt (ble_device.name d) @ '')''),
                UpdateDevice m d,
                LogError (''Unsupported Airthings device at '' @ ble_device.address d)]\<rparr>)"
      and "connect_try E m d w =
        (Returned (),
         w\<lparr>ticks := Suc (ticks w),
           out := out w
             @ [Print (''Connecting to '' @ ble_device.address d @ '' ...''),
                UpdateDevice m d,
                LogError ''The device is not a supported Airthings device.'']\<rparr>)"
      by (rule auto_try_unsupported, rule connect_try_unsupported)
    with in_unsupported show ?thesis
      unfolding kind by (simp only: if_True simp_thms)
  next
    assume kind: "e = PyException x"
    with assms(1) have "update_at E (ticks w) m d = Inl (PyException x)"
      by simp
    then have "auto_try E m d w =
        (Returned (),
         w\<lparr>ticks := Suc (ticks w),
           out := out w
             @ [Print (''Attempting to read '' @ ble_device.address d @ '' (''
                       @ str_opt (ble_device.name d) @ '')''),
                UpdateDevice m d,
                LogError (''Error reading '' @ ble_device.address d @ '': '' @ x)]\<rparr>)"
      and "connect_try E m d w =
        (Returned (),
         w\<lparr>ticks := Suc (ticks w),
           out := out w
             @ [Print (''Connecting to '' @ ble_device.address d @ '' ...''),
                UpdateDevice m d,
                LogError (''Error connecting/reading device: '' @ x)]\<rparr>)"
      by (rule auto_try_exception, rule connect_try_exception)
    moreover have "PyException x \<noteq> UnsupportedDeviceError"
      by simp
    ultimately show ?thesis
      using in_other unfolding kind by (simp only: if_False simp_thms)
  qed
qed

text \<open>C7 as amended, for a read of the first concrete device that times out.\<close>

theorem read_failure_logged_and_contained_witness:
  "auto_try env_failing True dev_a world0 =
      (Returned (),
       \<lparr>ticks = 1,
        out = [Print ''Attempting to read AA:BB:CC:DD:EE:01 (Wave Plus)'',
               UpdateDevice True dev_a,
               LogError ''Error reading AA:BB:CC:DD:EE:01: TimeoutError'']\<rparr>)
   \<and> connect_try env_failing True dev_a world0 =
      (Returned (),
       \<lparr>ticks = 1,
        out = [Print ''Connecting to AA:BB:CC:DD:EE:01 ...'',
               UpdateDevice True dev_a,
               LogError ''Error connecting/reading device: TimeoutError'']\<rparr>)"
proof -
  have fails: "update_at env_failing (ticks world0) True dev_a = Inl (PyException ''TimeoutError'')"
    by (simp add: env_failing_def)
  have kind: "PyException ''TimeoutError'' = UnsupportedDeviceError
      \<or> PyException ''TimeoutError'' = PyException ''TimeoutError''"
    by simp
  have addr_a: "ble_device.address dev_a = ''AA:BB:CC:DD:EE:01''"
    and name_a: "ble_device.name dev_a = Some ''Wave Plus''"
    by (simp_all add: dev_a_def)
  from read_failure_logged_and_contained [OF fails kind] show ?thesis
    by (simp add: addr_a name_a str_opt_def world0_def)
qed

text \<open>
  C7 as stated fails in the targeted mode: the second concrete device is not supported,
  and the one message \<open>connect_and_read\<close> logs for it does not contain its address.
\<close>

theorem targeted_failure_log_counterexample:
  "connect_and_read env_three ''aa:bb:cc:dd:ee:02'' 8 True world0 =
     (Returned (),
      \<lparr>ticks = 2,
       out = [Discover 8, Print ''Connecting to AA:BB:CC:DD:EE:02 ...'',
              UpdateDevice True dev_b,
              LogError ''The device is not a supported Airthings device.'']\<rparr>)
   \<and> \<not> contains ''The device is not a supported Airthings device.'' (ble_device.address dev_b)"
proof -
  have target: "find_target ''aa:bb:cc:dd:ee:02'' [dev_a, dev_b, dev_c] = Some dev_b"
    by (simp add: dev_a_def dev_b_def lower_def lower_char_def)
  have fails: "update_at env_three (ticks w) True dev_b = Inl UnsupportedDeviceError" for w
    by (simp add: env_three_def)
  have addr_b: "ble_device.address dev_b = ''AA:BB:CC:DD:EE:02''"
    by (simp add: dev_b_def)
  have found: "discover_at env_three k 8 = Inr [dev_a, dev_b, dev_c]" for k
    by (simp add: env_three_def)
  have run: "connect_and_read env_three ''aa:bb:cc:dd:ee:02'' 8 True world0 =
     (Returned (),
      \<lparr>ticks = 2,
       out = [Discover 8, Print ''Connecting to AA:BB:CC:DD:EE:02 ...'',
              UpdateDevice True dev_b,
              LogError ''The device is not a supported Airthings device.'']\<rparr>)"
    unfolding connect_and_read_def discover_def found
    by (simp add: target connect_try_unsupported fails addr_b world0_def
        del: find_target.simps)
  have "\<not> contains ''The device is not a supported Airthings device.'' ''AA:BB:CC:DD:EE:02''"
    by simp
  with run show ?thesis
    by (simp only: addr_b simp_thms)
qed

subsection \<open>C8: several devices with the target address\<close>

text \<open>
  C8.  When the discovery result holds a device with the target address (compared after
  lowering both) and no device before it has that address, \<open>connect_and_read\<close> reads this
  device and no other, whatever follows it in the result.
\<close>

theorem connect_and_read_first_match:
  assumes "discover_at E (ticks w) t = Inr (pre @ d # post)"
    and "\<forall>x \<in> set pre. lower (ble_device.address x) \<noteq> lower addr"
    and "lower (ble_device.address d) = lower addr"
  shows "reads (out (snd (connect_and_read E addr t m w))) = reads (out w) @ [d]"
proof -
  from assms(2,3) have "find_target addr (pre @ d # post) = Some d"
    by (rule find_target_first)
  with assms(1) show ?thesis
    by (simp add: connect_and_read_def discover_def connect_try_reads reads_append)
qed

text \<open>C8 where the second and the third device both have the target address.\<close>

theorem connect_and_read_first_match_witness:
  "lower (ble_device.address dev_a) = lower (ble_device.address dev_c)
   \<and> dev_a \<noteq> dev_c
   \<and> reads (out (snd (connect_and_read env_twins ''AA:BB:CC:DD:EE:01'' 8 True world0))) = [dev_c]"
proof -
  have found: "discover_at env_twins (ticks world0) 8 = Inr ([dev_b] @ dev_c # [dev_a])"
    by (simp add: env_twins_def)
  have before: "\<forall>x \<in> set [dev_b]. lower (ble_device.address x) \<noteq> lower ''AA:BB:CC:DD:EE:01''"
    by (simp add: dev_b_def lower_def lower_char_def)
  have first: "lower (ble_device.address dev_c) = lower ''AA:BB:CC:DD:EE:01''"
    by (simp add: dev_c_def lower_def lower_char_def)
  have twin: "lower (ble_device.address dev_a) = lower (ble_device.address dev_c)"
    by (simp add: dev_a_def dev_c_def lower_def lower_char_def)
  have "dev_a \<noteq> dev_c"
    by (simp add: dev_a_def dev_c_def)
  with twin connect_and_read_first_match [OF found before first, of True] show ?thesis
    by (simp add: world0_def)
qed

subsection \<open>C9: a reading without a model\<close>

text \<open>
  C9.  For a reading whose model is absent, \<open>print_device\<close> returns normally and its model
  line shows \<open>None\<close>; reading \<open>product_name\<close> from that model without the guard would raise.
\<close>

theorem print_device_absent_model:
  assumes "model device = None"
  shows "print_device E device w =
    (Returned (),
     w\<lparr>out := out w
        @ map Print (header_lines device ''None'' @ [''Sensors:'']
                     @ map (sensor_line E) (sorted_items (sensors device))
                     @ [[CHR 0x0A]])\<rparr>)
   \<and> product_name_of (model device) = Inl (PyException ''AttributeError'')"
  using assms by (simp add: print_device_block reading_block_def product_name_of_def)

text \<open>C9 on the concrete reading that has no model.\<close>

theorem print_device_absent_model_witness:
  "print_device env_three reading_c world0 =
    (Returned (),
     \<lparr>ticks = 0,
      out = map Print
        [''Device info:'', ''  Name: Corentium'', ''  Model: None'',
         ''  Manufacturer: Airthings AS'', ''  Serial: 654321'', ''  Firmware: 1.0'',
         ''  Address: aa:bb:cc:dd:ee:01'', ''Sensors:'', ''  battery: 87'', [CHR 0x0A]]\<rparr>)"
proof -
  have absent: "model reading_c = None"
    by (simp add: reading_c_def)
  have items: "sorted_items (sensors reading_c) = [(''battery'', PyInt 87)]"
    by (simp add: sorted_items_def reading_c_def dict_of_def DAList.update.rep_eq
        DAList.empty.rep_eq)
  have digits: "str_int 87 = ''87''"
    by (simp add: str_int_def str_nat.simps digit_char_def)
  have header: "header_lines reading_c ''None'' =
      [''Device info:'', ''  Name: Corentium'', ''  Model: None'',
       ''  Manufacturer: Airthings AS'', ''  Serial: 654321'', ''  Firmware: 1.0'',
       ''  Address: aa:bb:cc:dd:ee:01'']"
    by (simp add: header_lines_def reading_c_def)
  from print_device_absent_model [OF absent, of env_three world0] show ?thesis
    by (simp add: items header digits sensor_line_def str_value_def world0_def)
qed

subsection \<open>C10: the two discovery passes of a default run\<close>

text \<open>
  C10.  A run of \<open>main\<close> without a target address makes two discovery calls, one in \<open>scan\<close>
  and one in \<open>auto_find_and_read\<close>.  When both succeed and no read is interrupted, the
  devices read are those of the second call, whatever the first call returned; when both
  return no device, the line \<open>No BLE devices found\<close> is printed twice.
\<close>

theorem main_default_two_discovery_passes:
  assumes "connect a = None \<or> connect a = Some []"
    and "discover_at E (ticks w) (timeout a) = Inr ds1"
    and "discover_at E (Suc (ticks w)) (timeout a) = Inr ds2"
    and "\<forall>k d x. update_at E k (\<not> imperial a) d \<noteq> Inl (PyBaseException x)"
  shows "fst (main E a w) = Returned ()
   \<and> discoveries (out (snd (main E a w))) = discoveries (out w) @ [timeout a, timeout a]
   \<and> reads (out (snd (main E a w))) = reads (out w) @ ds2
   \<and> (ds1 = [] \<and> ds2 = [] \<longrightarrow>
        out (snd (main E a w)) =
          out w
            @ [BasicConfig (if debug a then DEBUG else INFO),
               Print (''Scanning for BLE devices for '' @ str_float E (timeout a)
                      @ '' seconds...''),
               Discover (timeout a),
               Print ''No BLE devices found'',
               Discover (timeout a),
               Print ''No BLE devices found''])"
proof -
  let ?w1 = "basic_config (if debug a then DEBUG else INFO) w"
  have t1: "ticks ?w1 = ticks w" by (simp add: basic_config_def)
  obtain w2 where sc: "scan E (timeout a) ?w1 = (Returned ds1, w2)"
    and w2: "w2 = ?w1\<lparr>ticks := Suc (ticks ?w1),
       out := out ?w1
         @ [Print (''Scanning for BLE devices for '' @ str_float E (timeout a) @ '' seconds...''),
            Discover (timeout a),
            Print (if ds1 = [] then ''No BLE devices found''
                   else ''Found '' @ str_nat (length ds1) @ '' device(s)'')]\<rparr>"
    using scan_returned [of E ?w1 "timeout a" ds1] assms(2) t1 by simp
  have m: "main E a w = auto_find_and_read E (timeout a) (\<not> imperial a) w2"
    using assms(1) sc by (auto simp: main_def Let_def)
  have t2: "ticks w2 = Suc (ticks w)" by (simp add: w2 t1)
  with assms(3) have d2: "discover_at E (ticks w2) (timeout a) = Inr ds2" by simp
  from auto_find_and_read_reads [OF d2 assms(4)]
  obtain w' where fin: "auto_find_and_read E (timeout a) (\<not> imperial a) w2 = (Returned (), w')"
    and r: "reads (out w') = reads (out w2) @ ds2"
    and d: "discoveries (out w') = discoveries (out w2) @ [timeout a]"
    by blast
  have r2: "reads (out w2) = reads (out w)"
    by (simp add: w2 basic_config_def reads_append)
  have dd2: "discoveries (out w2) = discoveries (out w) @ [timeout a]"
    by (simp add: w2 basic_config_def discoveries_append)
  have empty: "out (snd (main E a w)) =
          out w
            @ [BasicConfig (if debug a then DEBUG else INFO),
               Print (''Scanning for BLE devices for '' @ str_float E (timeout a)
                      @ '' seconds...''),
               Discover (timeout a),
               Print ''No BLE devices found'',
               Discover (timeout a),
               Print ''No BLE devices found'']" if "ds1 = []" and "ds2 = []"
    using that d2 by (simp add: m auto_find_and_read_def discover_def print_def w2 basic_config_def)
  show ?thesis
    using m fin r d r2 dd2 empty by simp
qed

text \<open>
  C10 in two environments: one where the first pass sees the first concrete device and the
  second pass the two others, and the empty one.
\<close>

theorem main_default_two_discovery_passes_witness:
  "discoveries (out (snd (main env_moving default_args world0))) = [8, 8]
   \<and> printed (out (snd (scan env_moving 8 world0))) =
       [''Scanning for BLE devices for 8.0 seconds...'', ''Found 1 device(s)'']
   \<and> reads (out (snd (main env_moving default_args world0))) = [dev_b, dev_c]
   \<and> out (snd (main env_empty default_args world0)) =
       [BasicConfig INFO, Print ''Scanning for BLE devices for 8.0 seconds...'', Discover 8,
        Print ''No BLE devices found'', Discover 8, Print ''No BLE devices found'']"
proof -
  have mode: "connect default_args = None \<or> connect default_args = Some []"
    by (simp add: default_args_def)
  have t: "timeout default_args = 8" and i: "imperial default_args = False"
    and g: "debug default_args = False"
    by (simp_all add: default_args_def)
  have first: "discover_at env_moving (ticks world0) (timeout default_args) = Inr [dev_a]"
    by (simp add: env_moving_def world0_def)
  have second: "discover_at env_moving (Suc (ticks world0)) (timeout default_args)
      = Inr [dev_b, dev_c]"
    by (simp add: env_moving_def)
  have calm: "\<forall>k d x. update_at env_moving k (\<not> imperial default_args) d
      \<noteq> Inl (PyBaseException x)"
    by (simp add: env_moving_def env_three_def)
  have none1: "discover_at env_empty (ticks world0) (timeout default_args) = Inr []"
    and none2: "discover_at env_empty (Suc (ticks world0)) (timeout default_args) = Inr []"
    by (simp_all add: env_empty_def)
  have calm': "\<forall>k d x. update_at env_empty k (\<not> imperial default_args) d
      \<noteq> Inl (PyBaseException x)"
    by (simp add: env_empty_def env_three_def)
  have listed: "printed (out (snd (scan env_moving 8 world0))) =
       [''Scanning for BLE devices for 8.0 seconds...'', ''Found 1 device(s)'']"
    using scan_returned [of env_moving world0 8 "[dev_a]"] first
    by (simp add: t world0_def env_moving_def env_three_def str_nat.simps digit_char_def)
  from main_default_two_discovery_passes [OF mode first second calm]
    main_default_two_discovery_passes [OF mode none1 none2 calm'] listed
  show ?thesis
    by (simp add: t g world0_def env_empty_def env_three_def)
qed

end
